theory Spec2Isabelle
  imports Main "HOL-Library.Word"
begin

unbundle bit_operations_syntax

section \<open>Data model of \<^verbatim>\<open>server.c\<close>\<close>

text \<open>
  The server side of libssh as \<^verbatim>\<open>src/server.c\<close> writes it. Structures are records,
  enumerations are datatypes, a nullable pointer is an \<open>option\<close>, a fixed array of
  nullable pointers is a map on its indices. Functions of the library that live in other
  files (buffer, packet, key, DH and socket helpers) are not part of the sources at hand:
  their results enter the model through environment records, and the few whose effect on
  the session matters are modelled from the specification, each marked as such.
  Logging (\<^verbatim>\<open>ssh_log\<close>, \<^verbatim>\<open>enter_function\<close>, \<^verbatim>\<open>leave_function\<close>) is not modelled.
\<close>

type_synonym u8 = "8 word"
type_synonym u32 = "32 word"

datatype ssh_session_state_e =
    SSH_SESSION_STATE_NONE
  | SSH_SESSION_STATE_CONNECTING
  | SSH_SESSION_STATE_SOCKET_CONNECTED
  | SSH_SESSION_STATE_BANNER_RECEIVED
  | SSH_SESSION_STATE_INITIAL_KEX
  | SSH_SESSION_STATE_KEXINIT_RECEIVED
  | SSH_SESSION_STATE_DH
  | SSH_SESSION_STATE_AUTHENTICATING
  | SSH_SESSION_STATE_ERROR
  | SSH_SESSION_STATE_DISCONNECTED

datatype ssh_dh_state_e =
    DH_STATE_INIT
  | DH_STATE_INIT_SENT
  | DH_STATE_NEWKEYS_SENT
  | DH_STATE_FINISHED

datatype ssh_keytypes_e =
    SSH_KEYTYPE_UNKNOWN
  | SSH_KEYTYPE_DSS
  | SSH_KEYTYPE_RSA
  | SSH_KEYTYPE_RSA1

datatype ssh_error_types_e = SSH_NO_ERROR | SSH_REQUEST_DENIED | SSH_FATAL

text \<open>A private key: its type and its secret material.\<close>

datatype ssh_private_key = Private_key ssh_keytypes_e string

datatype ssh_public_key = Public_key ssh_keytypes_e string

text \<open>
  The contents of a packet buffer, one entry for each \<^verbatim>\<open>buffer_add_*\<close> call: a byte, a
  32-bit word as it was handed over, or a length-prefixed string.
\<close>

datatype item = U8 u8 | U32 u32 | SSH_string string

type_synonym ssh_buffer = "item list"

text \<open>\<^verbatim>\<open>struct socket\<close>, as far as \<^verbatim>\<open>server.c\<close> sees it: the descriptor it wraps.\<close>

record ssh_socket =
  socket_fd :: int

text \<open>
  \<^verbatim>\<open>KEX\<close>: the cookie and the array of ten method strings
  (\<open>None\<close> is the \<^verbatim>\<open>NULL\<close> array, \<open>Some m\<close> an allocated array whose entry
  \<open>m i\<close> is \<open>None\<close> for \<^verbatim>\<open>NULL\<close>).
\<close>

record KEX =
  cookie :: "u8 list"
  methods :: "(nat \<rightharpoonup> string) option"

text \<open>
  \<^verbatim>\<open>struct ssh_session_struct\<close>, the fields \<^verbatim>\<open>server.c\<close> reads or writes. \<open>sent\<close> is
  the wire: the packets that \<^verbatim>\<open>packet_send\<close> has taken from \<open>out_buffer\<close>, oldest
  first. \<open>error_code\<close> and \<open>error_buffer\<close> are the last-error slot that
  \<^verbatim>\<open>ssh_set_error\<close> fills.
\<close>

record ssh_session =
  session_state :: ssh_session_state_e
  dh_handshake_state :: ssh_dh_state_e
  hostkeys :: ssh_keytypes_e
  dsa_key :: "ssh_private_key option"
  rsa_key :: "ssh_private_key option"
  clientbanner :: "string option"
  out_buffer :: ssh_buffer
  sent :: "ssh_buffer list"
  auth_methods :: u32
  server :: int
  version :: int
  wanted_methods :: "nat \<rightharpoonup> string"
  bindaddr :: "string option"
  log_verbosity :: int
  socket :: "ssh_socket option"
  server_kex :: KEX
  error_code :: ssh_error_types_e
  error_buffer :: string

section \<open>Constants and helpers of the library\<close>

text \<open>
  Modelled from the spec: the result codes of \<^verbatim>\<open>libssh.h\<close> and \<^verbatim>\<open>priv.h\<close>, which are
  not among the sources. Operations "return binary success/error" (section 7);
  \<^verbatim>\<open>server.c\<close> itself writes \<^verbatim>\<open>-1\<close> and \<^verbatim>\<open>SSH_ERROR\<close> for the same failure and tests
  results with \<^verbatim>\<open>< 0\<close>.
\<close>

definition SSH_OK :: int where
  "SSH_OK = 0"

definition SSH_ERROR :: int where
  "SSH_ERROR = - 1"

definition SSH_PACKET_USED :: int where
  "SSH_PACKET_USED = 1"

definition SSH_INVALID_SOCKET :: int where
  "SSH_INVALID_SOCKET = - 1"

text \<open>Modelled from the spec: the message numbers of \<^verbatim>\<open>ssh2.h\<close>, listed in section 6.\<close>

definition SSH2_MSG_NEWKEYS :: u8 where
  "SSH2_MSG_NEWKEYS = 21"

definition SSH2_MSG_KEXDH_REPLY :: u8 where
  "SSH2_MSG_KEXDH_REPLY = 31"

definition SSH2_MSG_USERAUTH_FAILURE :: u8 where
  "SSH2_MSG_USERAUTH_FAILURE = 51"

definition SSH2_MSG_CHANNEL_FAILURE :: u8 where
  "SSH2_MSG_CHANNEL_FAILURE = 100"

text \<open>
  Modelled from the spec: \<^verbatim>\<open>ssh_set_error\<close> of \<^verbatim>\<open>error.c\<close>, which makes "the fatal
  reason observable via a last error slot" (section 7).
\<close>

definition ssh_set_error :: "ssh_session \<Rightarrow> ssh_error_types_e \<Rightarrow> string \<Rightarrow> ssh_session" where
  "ssh_set_error session code msg = session\<lparr>error_code := code, error_buffer := msg\<rparr>"

text \<open>
  Modelled from the spec: the buffer helpers of \<^verbatim>\<open>buffer.c\<close>. Each appends one entry
  to the buffer and answers a negative result when the buffer cannot grow; the flag
  \<open>ok\<close> says whether this call finds the memory it needs. \<open>None\<close> is the negative
  result.
\<close>

definition buffer_add_u8 :: "bool \<Rightarrow> ssh_buffer \<Rightarrow> u8 \<Rightarrow> ssh_buffer option" where
  "buffer_add_u8 ok buffer v = (if ok then Some (buffer @ [U8 v]) else None)"

definition buffer_add_u32 :: "bool \<Rightarrow> ssh_buffer \<Rightarrow> u32 \<Rightarrow> ssh_buffer option" where
  "buffer_add_u32 ok buffer v = (if ok then Some (buffer @ [U32 v]) else None)"

definition buffer_add_ssh_string :: "bool \<Rightarrow> ssh_buffer \<Rightarrow> string \<Rightarrow> ssh_buffer option" where
  "buffer_add_ssh_string ok buffer str = (if ok then Some (buffer @ [SSH_string str]) else None)"

definition buffer_reinit :: "ssh_buffer \<Rightarrow> ssh_buffer" where
  "buffer_reinit buffer = []"

text \<open>
  Modelled from the spec: \<^verbatim>\<open>buffer_get_ssh_string\<close> of \<^verbatim>\<open>buffer.c\<close> reads the string at
  the head of a received packet, \<^verbatim>\<open>NULL\<close> when there is none (section 4.2, step 1).
\<close>

definition buffer_get_ssh_string :: "ssh_buffer \<Rightarrow> string option" where
  "buffer_get_ssh_string packet = (case packet of SSH_string e # rest \<Rightarrow> Some e | _ \<Rightarrow> None)"

text \<open>
  Modelled from the spec: \<^verbatim>\<open>packet_send\<close> of \<^verbatim>\<open>packet.c\<close>, the \<open>write_packet\<close> of the
  packet interface (section 6): "outbound packets are flushed in call order"
  (section 5). A successful call moves the contents of the out buffer to the wire; a
  failing call answers \<^verbatim>\<open>SSH_ERROR\<close>. The flag \<open>ok\<close> says which of the two this call is.
\<close>

definition packet_send :: "bool \<Rightarrow> ssh_session \<Rightarrow> int \<times> ssh_session" where
  "packet_send ok session =
     (if ok
      then (SSH_OK, session\<lparr>sent := sent session @ [out_buffer session],
                             out_buffer := buffer_reinit (out_buffer session)\<rparr>)
      else (SSH_ERROR, session))"

text \<open>
  The outcomes of the fallible library calls made while one reply is built:
  \<open>buffer_ok k\<close> for the \<open>k\<close>-th write to the out buffer (counted from 0 in the order of
  the source text), \<open>send_ok k\<close> for the \<open>k\<close>-th \<^verbatim>\<open>packet_send\<close>, \<open>string_ok\<close> for
  \<^verbatim>\<open>ssh_string_from_char\<close>, and \<open>htonl\<close> for the byte order of the host.
\<close>

record pktio =
  buffer_ok :: "nat \<Rightarrow> bool"
  send_ok :: "nat \<Rightarrow> bool"
  string_ok :: bool
  htonl :: "u32 \<Rightarrow> u32"

section \<open>Default reply to a channel request\<close>

record ssh_channel =
  remote_channel :: u32

text \<open>\<^verbatim>\<open>msg->channel_request\<close>: the two fields the default reply reads.\<close>

record ssh_channel_request =
  channel :: ssh_channel
  want_reply :: u8

text \<open>
  \<^verbatim>\<open>ssh_message_channel_request_reply_default\<close>. The session is \<^verbatim>\<open>msg->session\<close>, passed
  explicitly.
\<close>

definition ssh_message_channel_request_reply_default ::
  "pktio \<Rightarrow> ssh_channel_request \<Rightarrow> ssh_session \<Rightarrow> int \<times> ssh_session" where
  "ssh_message_channel_request_reply_default io req session =
     (if want_reply req \<noteq> 0 then
        (let chan = remote_channel (channel req) in
         case buffer_add_u8 (buffer_ok io 0) (out_buffer session) SSH2_MSG_CHANNEL_FAILURE of
           None \<Rightarrow> (SSH_ERROR, session)
         | Some b1 \<Rightarrow>
             (case buffer_add_u32 (buffer_ok io 1) b1 (htonl io chan) of
                None \<Rightarrow> (SSH_ERROR, session\<lparr>out_buffer := b1\<rparr>)
              | Some b2 \<Rightarrow> packet_send (send_ok io 0) (session\<lparr>out_buffer := b2\<rparr>)))
      else (SSH_OK, session))"

section \<open>Key exchange: the server's Diffie-Hellman reply\<close>

text \<open>
  What the helpers of \<^verbatim>\<open>dh.c\<close> and \<^verbatim>\<open>keys.c\<close> answer during one key exchange. The
  numbers they compute live in \<^verbatim>\<open>session->next_crypto\<close>, which \<^verbatim>\<open>server.c\<close> never
  reads; what \<^verbatim>\<open>server.c\<close> branches on is the result of each call, and the helpers
  are taken to leave the fields of the session record alone. A helper that is handed a
  key is a function of that key: \<open>None\<close> is the \<^verbatim>\<open>NULL\<close> key or the \<^verbatim>\<open>NULL\<close> result.
\<close>

record dh_env = pktio +
  dh_import_e :: "string \<Rightarrow> int"
  dh_generate_y :: int
  dh_generate_f :: int
  dh_get_f :: "string option"
  publickey_from_privatekey :: "ssh_private_key option \<Rightarrow> ssh_public_key option"
  publickey_to_string :: "ssh_public_key \<Rightarrow> string option"
  dh_build_k :: int
  make_sessionid :: int
  ssh_sign_session_id :: "ssh_private_key option \<Rightarrow> string option"

text \<open>The recurring exit \<^verbatim>\<open>ssh_set_error(session, SSH_FATAL, msg); return -1;\<close>.\<close>

definition fatal :: "ssh_session \<Rightarrow> string \<Rightarrow> int \<times> ssh_session" where
  "fatal session msg = (- 1, ssh_set_error session SSH_FATAL msg)"

text \<open>
  \<^verbatim>\<open>dh_handshake_server\<close>. The four writes of the reply are joined by \<^verbatim>\<open>||\<close> in the
  source: the first that fails skips the rest, and the buffer is reinitialised.
\<close>

definition dh_handshake_server :: "'a dh_env_scheme \<Rightarrow> ssh_session \<Rightarrow> int \<times> ssh_session" where
  "dh_handshake_server env session =
     (if dh_generate_y env < 0 then fatal session ''Could not create y number''
      else if dh_generate_f env < 0 then fatal session ''Could not create f number''
      else case dh_get_f env of
        None \<Rightarrow> fatal session ''Could not get the f number''
      | Some f \<Rightarrow>
         (let prv = (case hostkeys session of
                       SSH_KEYTYPE_DSS \<Rightarrow> dsa_key session
                     | SSH_KEYTYPE_RSA \<Rightarrow> rsa_key session
                     | _ \<Rightarrow> None)
          in case publickey_from_privatekey env prv of
            None \<Rightarrow> fatal session ''Could not get the public key from the private key''
          | Some pub \<Rightarrow>
             (case publickey_to_string env pub of
                None \<Rightarrow> fatal session ''Not enough space''
              | Some pubkey \<Rightarrow>
                 if dh_build_k env < 0 then fatal session ''Could not import the public key''
                 else if make_sessionid env \<noteq> SSH_OK
                   then fatal session ''Could not create a session id''
                 else (case ssh_sign_session_id env prv of
                   None \<Rightarrow> fatal session ''Could not sign the session id''
                 | Some sign \<Rightarrow>
                    (let session1 = (if rsa_key session \<noteq> None
                                     then session\<lparr>rsa_key := None\<rparr> else session);
                         session2 = (if dsa_key session1 \<noteq> None
                                     then session1\<lparr>dsa_key := None\<rparr> else session1)
                     in case Option.bind (Option.bind (Option.bind
                               (buffer_add_u8 (buffer_ok env 0) (out_buffer session2)
                                  SSH2_MSG_KEXDH_REPLY)
                               (\<lambda>b. buffer_add_ssh_string (buffer_ok env 1) b pubkey))
                               (\<lambda>b. buffer_add_ssh_string (buffer_ok env 2) b f))
                               (\<lambda>b. buffer_add_ssh_string (buffer_ok env 3) b sign) of
                       None \<Rightarrow>
                         fatal (session2\<lparr>out_buffer := buffer_reinit (out_buffer session2)\<rparr>)
                           ''Not enough space''
                     | Some reply \<Rightarrow>
                        (case packet_send (send_ok env 0) (session2\<lparr>out_buffer := reply\<rparr>) of
                           (rc, session3) \<Rightarrow>
                             if rc = SSH_ERROR then (- 1, session3)
                             else (case buffer_add_u8 (buffer_ok env 4) (out_buffer session3)
                                         SSH2_MSG_NEWKEYS of
                               None \<Rightarrow>
                                 (- 1, session3\<lparr>out_buffer :=
                                                  buffer_reinit (out_buffer session3)\<rparr>)
                             | Some newkeys \<Rightarrow>
                                (case packet_send (send_ok env 1)
                                        (session3\<lparr>out_buffer := newkeys\<rparr>) of
                                   (rc', session4) \<Rightarrow>
                                     if rc' = SSH_ERROR then (- 1, session4)
                                     else (0, session4\<lparr>dh_handshake_state :=
                                                          DH_STATE_NEWKEYS_SENT\<rparr>)))))))))"

text \<open>
  \<^verbatim>\<open>ssh_packet_kexdh_init\<close>, the packet callback for \<^verbatim>\<open>SSH_MSG_KEXDH_INIT\<close>. The result
  of \<^verbatim>\<open>dh_handshake_server\<close> is dropped by the source; its effect on the session stays.
\<close>

definition ssh_packet_kexdh_init ::
  "'a dh_env_scheme \<Rightarrow> ssh_buffer \<Rightarrow> ssh_session \<Rightarrow> int \<times> ssh_session" where
  "ssh_packet_kexdh_init env packet session =
     (if dh_handshake_state session \<noteq> DH_STATE_INIT then (SSH_PACKET_USED, session)
      else case buffer_get_ssh_string packet of
        None \<Rightarrow> fatal session ''No e number in client request''
      | Some e \<Rightarrow>
          if dh_import_e env e < 0
          then (SSH_PACKET_USED,
                (ssh_set_error session SSH_FATAL ''Cannot import e number'')
                  \<lparr>session_state := SSH_SESSION_STATE_ERROR\<rparr>)
          else (SSH_PACKET_USED,
                snd (dh_handshake_server env
                       (session\<lparr>dh_handshake_state := DH_STATE_INIT_SENT\<rparr>))))"

section \<open>Receiving the client banner\<close>

text \<open>The characters \<^verbatim>\<open>'\r'\<close>, \<^verbatim>\<open>'\n'\<close> and \<^verbatim>\<open>'\0'\<close>.\<close>

definition CR :: char where
  "CR = CHR 0x0D"

definition LF :: char where
  "LF = CHR 0x0A"

definition NUL :: char where
  "NUL = CHR 0x00"

text \<open>
  \<^verbatim>\<open>strdup\<close> of the C library: a copy of the C string that starts the array, that is,
  of the characters before the first \<^verbatim>\<open>'\0'\<close>; \<^verbatim>\<open>NULL\<close> when there is no memory
  (\<open>ok\<close> is false).
\<close>

definition strdup :: "bool \<Rightarrow> string \<Rightarrow> string option" where
  "strdup ok str = (if ok then Some (takeWhile (\<lambda>c. c \<noteq> NUL) str) else None)"

text \<open>
  The \<^verbatim>\<open>for\<close> loop of \<^verbatim>\<open>callback_receive_banner\<close>, from index \<open>i\<close> on; \<open>len\<close> is the
  length of \<open>buffer\<close>. The result is the number of bytes processed, the buffer (the loop
  overwrites \<^verbatim>\<open>'\r'\<close> and \<^verbatim>\<open>'\n'\<close> in place) and the session.
  \<open>ssh_connection_callback\<close> is the function pointer \<^verbatim>\<open>session->ssh_connection_callback\<close>,
  \<open>strdup_ok\<close> says whether \<^verbatim>\<open>strdup\<close> finds memory. The packet capture under
  \<^verbatim>\<open>WITH_PCAP\<close> is not modelled.
\<close>

function callback_receive_banner_loop ::
  "(ssh_session \<Rightarrow> ssh_session) \<Rightarrow> bool \<Rightarrow> nat \<Rightarrow> string \<Rightarrow> ssh_session
     \<Rightarrow> int \<times> string \<times> ssh_session" where
  "callback_receive_banner_loop ssh_connection_callback strdup_ok i buffer session =
     (if i < length buffer then
        (let buffer1 = (if buffer ! i = CR then buffer[i := NUL] else buffer)
         in if buffer1 ! i = LF then
              (let buffer2 = buffer1[i := NUL];
                   str = strdup strdup_ok buffer2;
                   ret = int i + 1;
                   session1 = session\<lparr>clientbanner := str,
                                session_state := SSH_SESSION_STATE_BANNER_RECEIVED\<rparr>
               in (ret, buffer2, ssh_connection_callback session1))
            else if i > 127 then
              (0, buffer1,
               ssh_set_error (session\<lparr>session_state := SSH_SESSION_STATE_ERROR\<rparr>) SSH_FATAL
                 ''Receiving banner: too large banner'')
            else callback_receive_banner_loop ssh_connection_callback strdup_ok (i + 1)
                   buffer1 session)
      else (0, buffer, session))"
  by pat_completeness auto
termination
  by (relation "measure (\<lambda>(cb, ok, i, buffer, session). length buffer - i)") auto

declare callback_receive_banner_loop.simps [simp del]

definition callback_receive_banner ::
  "(ssh_session \<Rightarrow> ssh_session) \<Rightarrow> bool \<Rightarrow> string \<Rightarrow> ssh_session
     \<Rightarrow> int \<times> string \<times> ssh_session" where
  "callback_receive_banner ssh_connection_callback strdup_ok data session =
     callback_receive_banner_loop ssh_connection_callback strdup_ok 0 data session"

section \<open>Accepting a connection\<close>

text \<open>
  \<^verbatim>\<open>struct ssh_bind_struct\<close>. The fields that share a name with a field of the session
  carry the prefix \<open>bind_\<close>.
\<close>

record ssh_bind =
  bindfd :: int
  bindport :: int
  bind_bindaddr :: "string option"
  dsakey :: "string option"
  rsakey :: "string option"
  bind_wanted_methods :: "nat \<rightharpoonup> string"
  bind_log_verbosity :: int
  bind_error_code :: ssh_error_types_e
  bind_error_buffer :: string

definition ssh_bind_set_error :: "ssh_bind \<Rightarrow> ssh_error_types_e \<Rightarrow> string \<Rightarrow> ssh_bind" where
  "ssh_bind_set_error sshbind code msg =
     sshbind\<lparr>bind_error_code := code, bind_error_buffer := msg\<rparr>"

text \<open>
  What \<^verbatim>\<open>ssh_bind_accept\<close> does outside the two structures: it loads and frees private
  keys and it calls the \<^verbatim>\<open>accept\<close> of the operating system. \<open>trace\<close> records these
  calls in order; \<open>pending\<close> holds the descriptors of the connections that wait in the
  listen queue, the next one first.
\<close>

datatype event =
    Privatekey_loaded ssh_private_key
  | Privatekey_freed ssh_private_key
  | Os_accept

record world =
  pending :: "int list"
  trace :: "event list"

text \<open>
  \<^verbatim>\<open>accept(2)\<close>: takes the first waiting connection; with none waiting the call fails
  (the value \<^verbatim>\<open>SSH_INVALID_SOCKET\<close>).
\<close>

definition os_accept :: "world \<Rightarrow> int \<times> world" where
  "os_accept w =
     (case pending w of
        [] \<Rightarrow> (SSH_INVALID_SOCKET, w\<lparr>trace := trace w @ [Os_accept]\<rparr>)
      | c # rest \<Rightarrow> (c, w\<lparr>pending := rest, trace := trace w @ [Os_accept]\<rparr>))"

text \<open>
  Modelled from the spec: \<^verbatim>\<open>privatekey_free\<close> of \<^verbatim>\<open>keys.c\<close> releases a private key;
  on \<^verbatim>\<open>NULL\<close> it does nothing.
\<close>

definition privatekey_free :: "ssh_private_key option \<Rightarrow> world \<Rightarrow> world" where
  "privatekey_free prv w =
     (case prv of None \<Rightarrow> w | Some k \<Rightarrow> w\<lparr>trace := trace w @ [Privatekey_freed k]\<rparr>)"

text \<open>
  The answers of the helpers \<^verbatim>\<open>ssh_bind_accept\<close> calls: the key loader
  \<^verbatim>\<open>_privatekey_from_file\<close> (the key, or the message it leaves in the error slot of the
  listener), the text of \<^verbatim>\<open>strerror(errno)\<close>, and whether each allocation finds memory.
\<close>

record accept_env =
  privatekey_from_file :: "string \<Rightarrow> ssh_keytypes_e \<Rightarrow> string + ssh_private_key"
  strerror_errno :: string
  strdup_method_ok :: "nat \<Rightarrow> bool"
  strdup_bindaddr_ok :: bool
  ssh_socket_new_ok :: bool

text \<open>
  The key loader with its effect on the listener and on the world. \<open>Inl\<close> is the
  \<^verbatim>\<open>NULL\<close> result.
\<close>

definition load_privatekey ::
  "accept_env \<Rightarrow> ssh_bind \<Rightarrow> string \<Rightarrow> ssh_keytypes_e \<Rightarrow> world
     \<Rightarrow> ssh_bind + (ssh_private_key \<times> world)" where
  "load_privatekey env sshbind path type w =
     (case privatekey_from_file env path type of
        Inl msg \<Rightarrow> Inl (ssh_bind_set_error sshbind SSH_FATAL msg)
      | Inr k \<Rightarrow> Inr (k, w\<lparr>trace := trace w @ [Privatekey_loaded k]\<rparr>))"

text \<open>
  The loop "copy options" of \<^verbatim>\<open>ssh_bind_accept\<close>, from index \<open>i\<close> on. The flag of the
  result is false when a \<^verbatim>\<open>strdup\<close> failed; the session is returned as the loop left it.
\<close>

function copy_options ::
  "accept_env \<Rightarrow> ssh_bind \<Rightarrow> nat \<Rightarrow> ssh_session \<Rightarrow> bool \<times> ssh_session" where
  "copy_options env sshbind i session =
     (if i < 10 then
        (case bind_wanted_methods sshbind i of
           Some m \<Rightarrow>
             (let copy = strdup (strdup_method_ok env i) m;
                  session1 = session\<lparr>wanted_methods := (wanted_methods session)(i := copy)\<rparr>
              in if copy = None then (False, session1)
                 else copy_options env sshbind (i + 1) session1)
         | None \<Rightarrow> copy_options env sshbind (i + 1) session)
      else (True, session))"
  by pat_completeness auto
termination
  by (relation "measure (\<lambda>(env, sshbind, i, session). 10 - i)") auto

declare copy_options.simps [simp del]

text \<open>\<^verbatim>\<open>ssh_bind_accept\<close>. A \<^verbatim>\<open>NULL\<close> session is \<open>None\<close>.\<close>

definition ssh_bind_accept ::
  "accept_env \<Rightarrow> ssh_bind \<Rightarrow> ssh_session option \<Rightarrow> world
     \<Rightarrow> int \<times> ssh_bind \<times> ssh_session option \<times> world" where
  "ssh_bind_accept env sshbind session w =
     (if bindfd sshbind = SSH_INVALID_SOCKET then
        (SSH_ERROR,
         ssh_bind_set_error sshbind SSH_FATAL
           ''Can't accept new clients on a not bound socket.'',
         session, w)
      else case session of
        None \<Rightarrow> (SSH_ERROR, ssh_bind_set_error sshbind SSH_FATAL ''session is null'', None, w)
      | Some s \<Rightarrow>
        if dsakey sshbind = None \<and> rsakey sshbind = None then
          (SSH_ERROR,
           ssh_bind_set_error sshbind SSH_FATAL
             ''DSA or RSA host key file must be set before accept()'',
           Some s, w)
        else
          (case (case dsakey sshbind of
                   None \<Rightarrow> Inr (None, w)
                 | Some path \<Rightarrow>
                     (case load_privatekey env sshbind path SSH_KEYTYPE_DSS w of
                        Inl b \<Rightarrow> Inl b
                      | Inr (k, w') \<Rightarrow> Inr (Some k, w'))) of
             Inl b \<Rightarrow> (SSH_ERROR, b, Some s, w)
           | Inr (dsa, w1) \<Rightarrow>
              (case (case rsakey sshbind of
                       None \<Rightarrow> Inr (None, w1)
                     | Some path \<Rightarrow>
                         (case load_privatekey env sshbind path SSH_KEYTYPE_RSA w1 of
                            Inl b \<Rightarrow> Inl b
                          | Inr (k, w') \<Rightarrow> Inr (Some k, w'))) of
                 Inl b \<Rightarrow> (SSH_ERROR, b, Some s, privatekey_free dsa w1)
               | Inr (rsa, w2) \<Rightarrow>
                  (case os_accept w2 of
                     (fd, w3) \<Rightarrow>
                       if fd = SSH_INVALID_SOCKET then
                         (SSH_ERROR,
                          ssh_bind_set_error sshbind SSH_FATAL
                            (''Accepting a new connection: '' @ strerror_errno env),
                          Some s, privatekey_free rsa (privatekey_free dsa w3))
                       else
                         (case copy_options env sshbind 0 (s\<lparr>server := 1, version := 2\<rparr>) of
                            (copied, s1) \<Rightarrow>
                              if \<not> copied then
                                (SSH_ERROR, sshbind, Some s1,
                                 privatekey_free rsa (privatekey_free dsa w3))
                              else
                                (let s2 = (case bind_bindaddr sshbind of
                                             None \<Rightarrow> s1\<lparr>bindaddr := None\<rparr>
                                           | Some a \<Rightarrow>
                                               s1\<lparr>bindaddr :=
                                                    strdup (strdup_bindaddr_ok env) a\<rparr>)
                                 in if bind_bindaddr sshbind \<noteq> None \<and> bindaddr s2 = None then
                                      (SSH_ERROR, sshbind, Some s2,
                                       privatekey_free rsa (privatekey_free dsa w3))
                                    else
                                      (let s3 = s2\<lparr>log_verbosity := bind_log_verbosity sshbind\<rparr>;
                                           s4 = s3\<lparr>socket :=
                                                      (if ssh_socket_new_ok env
                                                       then Some \<lparr>socket_fd = SSH_INVALID_SOCKET\<rparr>
                                                       else None)\<rparr>
                                       in case socket s4 of
                                            None \<Rightarrow>
                                              (SSH_ERROR, sshbind, Some s4,
                                               privatekey_free rsa (privatekey_free dsa w3))
                                          | Some sock \<Rightarrow>
                                              (SSH_OK, sshbind,
                                               Some (s4\<lparr>socket := Some (sock\<lparr>socket_fd := fd\<rparr>),
                                                        dsa_key := dsa, rsa_key := rsa\<rparr>),
                                               w3))))))))"

section \<open>Setting the server's key exchange methods\<close>

text \<open>
  Memory calls of \<^verbatim>\<open>server_set_kex\<close>, in order: the \<^verbatim>\<open>malloc\<close> and the \<^verbatim>\<open>free\<close> of the
  array \<^verbatim>\<open>server->methods\<close>, and the \<^verbatim>\<open>strdup\<close> and the \<^verbatim>\<open>free\<close> of its entry \<open>i\<close>.
\<close>

datatype mem_event =
    Malloc_methods
  | Free_methods
  | Strdup_method nat
  | Free_method nat

text \<open>An access outside the ten entries of the array has no defined result in C.\<close>

datatype fault = Out_of_bounds

text \<open>
  The table \<^verbatim>\<open>supported_methods\<close> is declared \<^verbatim>\<open>extern\<close> and defined elsewhere; it is a
  parameter here, with the random cookie and the outcomes of the allocations.
\<close>

record kex_env =
  supported_methods :: "nat \<Rightarrow> string"
  ssh_get_random :: "u8 list"
  ssh_options_set_algo_ok :: bool
  malloc_methods_ok :: bool
  strdup_ok :: "nat \<Rightarrow> bool"

text \<open>
  Modelled from the spec: the slot of the host-key methods is slot 1 of the ten
  (section 4.7), and \<^verbatim>\<open>ssh_options_set_algo\<close> of \<^verbatim>\<open>options.c\<close> stores a list as the
  preference of a slot, with a negative result when it cannot.
\<close>

definition SSH_HOSTKEYS :: nat where
  "SSH_HOSTKEYS = 1"

definition ssh_options_set_algo ::
  "bool \<Rightarrow> ssh_session \<Rightarrow> nat \<Rightarrow> string \<Rightarrow> int \<times> ssh_session" where
  "ssh_options_set_algo ok session algo list =
     (if ok then (0, session\<lparr>wanted_methods := (wanted_methods session)(algo \<mapsto> list)\<rparr>)
      else (- 1, session))"

text \<open>
  The inner loop \<^verbatim>\<open>for (j = i - 1; j <= 0; j--) SAFE_FREE(server->methods[j]);\<close>
  from \<open>j\<close> on. \<^verbatim>\<open>SAFE_FREE\<close> frees a pointer that is not \<^verbatim>\<open>NULL\<close> and sets it to
  \<^verbatim>\<open>NULL\<close>.
\<close>

function free_methods_loop ::
  "int \<Rightarrow> (nat \<rightharpoonup> string) \<Rightarrow> mem_event list
     \<Rightarrow> fault + ((nat \<rightharpoonup> string) \<times> mem_event list)" where
  "free_methods_loop j m tr =
     (if j \<le> 0 then
        (if j < 0 then Inl Out_of_bounds
         else free_methods_loop (j - 1) (m(nat j := None))
                (if m (nat j) \<noteq> None then tr @ [Free_method (nat j)] else tr))
      else Inr (m, tr))"
  by pat_completeness auto
termination
  by (relation "measure (\<lambda>(j, m, tr). nat (j + 1))") auto

declare free_methods_loop.simps [simp del]

text \<open>
  The outer loop \<^verbatim>\<open>for (i = 0; i < 10; i++)\<close> from \<open>i\<close> on. The result is the return
  value of \<^verbatim>\<open>server_set_kex\<close> when the loop ends it (\<open>Some (- 1)\<close>) or \<open>None\<close> when the
  loop runs to its end, with \<^verbatim>\<open>server->methods\<close> and the memory calls so far.
\<close>

function set_methods_loop ::
  "kex_env \<Rightarrow> ssh_session \<Rightarrow> nat \<Rightarrow> (nat \<rightharpoonup> string) \<Rightarrow> mem_event list
     \<Rightarrow> fault + (int option \<times> (nat \<rightharpoonup> string) option \<times> mem_event list)" where
  "set_methods_loop env session i m tr =
     (if i < 10 then
        (let wanted = (case wanted_methods session i of
                         None \<Rightarrow> supported_methods env i
                       | Some w \<Rightarrow> w)
         in case strdup (strdup_ok env i) wanted of
              Some copy \<Rightarrow>
                set_methods_loop env session (i + 1) (m(i \<mapsto> copy)) (tr @ [Strdup_method i])
            | None \<Rightarrow>
                (case free_methods_loop (int i - 1) m tr of
                   Inl f \<Rightarrow> Inl f
                 | Inr (m', tr') \<Rightarrow> Inr (Some (- 1), None, tr' @ [Free_methods])))
      else Inr (None, Some m, tr))"
  by pat_completeness auto
termination
  by (relation "measure (\<lambda>(env, session, i, m, tr). 10 - i)") auto

declare set_methods_loop.simps [simp del]

text \<open>
  \<^verbatim>\<open>server_set_kex\<close>. \<^verbatim>\<open>ZERO_STRUCTP(server)\<close> clears the structure before the cookie
  is drawn. The result is the return value, the session and the memory calls made, or
  the fault that stopped the function.
\<close>

definition server_set_kex ::
  "kex_env \<Rightarrow> ssh_session \<Rightarrow> fault + (int \<times> ssh_session \<times> mem_event list)" where
  "server_set_kex env session =
     (let session1 = session\<lparr>server_kex := \<lparr>cookie = ssh_get_random env, methods = None\<rparr>\<rparr>;
          hostkey_list = (if dsa_key session1 \<noteq> None \<and> rsa_key session1 \<noteq> None
                          then ''ssh-dss,ssh-rsa''
                          else if dsa_key session1 \<noteq> None then ''ssh-dss''
                          else ''ssh-rsa'')
      in case ssh_options_set_algo (ssh_options_set_algo_ok env) session1 SSH_HOSTKEYS
                hostkey_list of
           (rc, session2) \<Rightarrow>
             if rc < 0 then Inr (- 1, session2, [])
             else if \<not> malloc_methods_ok env then Inr (- 1, session2, [])
             else
               (case set_methods_loop env session2 0 Map.empty [Malloc_methods] of
                  Inl f \<Rightarrow> Inl f
                | Inr (ret, m, tr) \<Rightarrow>
                    (let session3 = session2\<lparr>server_kex := (server_kex session2)\<lparr>methods := m\<rparr>\<rparr>
                     in case ret of
                          Some r \<Rightarrow> Inr (r, session3, tr)
                        | None \<Rightarrow> Inr (0, session3, tr))))"

section \<open>Default reply to an authentication request\<close>

text \<open>
  The bits \<^verbatim>\<open>SSH_AUTH_METHOD_*\<close> are defined in \<^verbatim>\<open>libssh.h\<close>, which is not among the
  sources, and the specification does not give their values: they are parameters.
\<close>

record auth_method_bits =
  SSH_AUTH_METHOD_PASSWORD :: u32
  SSH_AUTH_METHOD_PUBLICKEY :: u32
  SSH_AUTH_METHOD_HOSTBASED :: u32
  SSH_AUTH_METHOD_INTERACTIVE :: u32

text \<open>
  The list that the chain of \<^verbatim>\<open>strcat\<close> calls writes to \<^verbatim>\<open>methods_c\<close> for the mask \<open>am\<close>, each
  name followed by a comma.
\<close>

definition methods_c :: "auth_method_bits \<Rightarrow> u32 \<Rightarrow> string" where
  "methods_c bits am =
     (if am AND SSH_AUTH_METHOD_PUBLICKEY bits \<noteq> 0 then ''publickey,'' else [])
     @ (if am AND SSH_AUTH_METHOD_INTERACTIVE bits \<noteq> 0 then ''keyboard-interactive,'' else [])
     @ (if am AND SSH_AUTH_METHOD_PASSWORD bits \<noteq> 0 then ''password,'' else [])
     @ (if am AND SSH_AUTH_METHOD_HOSTBASED bits \<noteq> 0 then ''hostbased,'' else [])"

text \<open>
  Modelled from the spec: \<^verbatim>\<open>ssh_string_from_char\<close> of \<^verbatim>\<open>string.c\<close> makes the wire
  string of a C string, \<^verbatim>\<open>NULL\<close> when there is no memory.
\<close>

definition ssh_string_from_char :: "bool \<Rightarrow> string \<Rightarrow> string option" where
  "ssh_string_from_char ok str = (if ok then Some str else None)"

text \<open>
  \<^verbatim>\<open>ssh_message_auth_reply_default\<close>; the session is \<^verbatim>\<open>msg->session\<close>. Stripping the
  last comma writes to \<^verbatim>\<open>methods_c[strlen(methods_c) - 1]\<close>, which lies outside the
  array when no name was written.
\<close>

definition ssh_message_auth_reply_default ::
  "auth_method_bits \<Rightarrow> pktio \<Rightarrow> ssh_session \<Rightarrow> int \<Rightarrow> fault + (int \<times> ssh_session)" where
  "ssh_message_auth_reply_default bits io session partial =
     (case buffer_add_u8 (buffer_ok io 0) (out_buffer session) SSH2_MSG_USERAUTH_FAILURE of
        None \<Rightarrow> Inr (SSH_ERROR, session)
      | Some b0 \<Rightarrow>
         (let session1 = session\<lparr>out_buffer := b0\<rparr>;
              session2 = (if auth_methods session1 = 0
                          then session1\<lparr>auth_methods :=
                                 SSH_AUTH_METHOD_PUBLICKEY bits OR SSH_AUTH_METHOD_PASSWORD bits\<rparr>
                          else session1);
              names = methods_c bits (auth_methods session2)
          in if names = [] then Inl Out_of_bounds
             else
               (case ssh_string_from_char (string_ok io) (butlast names) of
                  None \<Rightarrow> Inr (SSH_ERROR, session2)
                | Some methods_str \<Rightarrow>
                   (case buffer_add_ssh_string (buffer_ok io 1) (out_buffer session2) methods_str of
                      None \<Rightarrow> Inr (SSH_ERROR, session2)
                    | Some b1 \<Rightarrow>
                       (case buffer_add_u8 (buffer_ok io 2) b1 (if partial \<noteq> 0 then 1 else 0) of
                          None \<Rightarrow> Inr (SSH_ERROR, session2\<lparr>out_buffer := b1\<rparr>)
                        | Some b2 \<Rightarrow>
                            Inr (packet_send (send_ok io 0) (session2\<lparr>out_buffer := b2\<rparr>)))))))"

section \<open>Example sessions and environments\<close>

text \<open>
  Concrete values at which the properties below are instantiated. \<open>example_session\<close> is
  a server session that holds both host keys and has negotiated \<^verbatim>\<open>ssh-rsa\<close>.
\<close>

definition example_session :: ssh_session where
  "example_session =
     \<lparr>session_state = SSH_SESSION_STATE_SOCKET_CONNECTED,
      dh_handshake_state = DH_STATE_INIT,
      hostkeys = SSH_KEYTYPE_RSA,
      dsa_key = Some (Private_key SSH_KEYTYPE_DSS ''dsa secret''),
      rsa_key = Some (Private_key SSH_KEYTYPE_RSA ''rsa secret''),
      clientbanner = None,
      out_buffer = [],
      sent = [],
      auth_methods = 0,
      server = 1,
      version = 2,
      wanted_methods = Map.empty,
      bindaddr = None,
      log_verbosity = 0,
      socket = Some \<lparr>socket_fd = 4\<rparr>,
      server_kex = \<lparr>cookie = [], methods = None\<rparr>,
      error_code = SSH_NO_ERROR,
      error_buffer = []\<rparr>"

text \<open>Every write and every send succeeds; the host is big-endian.\<close>

definition example_io :: pktio where
  "example_io =
     \<lparr>buffer_ok = (\<lambda>k. True), send_ok = (\<lambda>k. True), string_ok = True, htonl = (\<lambda>x. x)\<rparr>"

text \<open>
  Key helpers without failures of their own: they make a public key and a signature
  from a private key, and answer \<^verbatim>\<open>NULL\<close> when they are handed the \<^verbatim>\<open>NULL\<close> key.
\<close>

definition strict_dh_env :: dh_env where
  "strict_dh_env =
     \<lparr>buffer_ok = (\<lambda>k. True), send_ok = (\<lambda>k. True), string_ok = True, htonl = (\<lambda>x. x),
      dh_import_e = (\<lambda>e. 0), dh_generate_y = 0, dh_generate_f = 0, dh_get_f = Some ''f'',
      publickey_from_privatekey =
        (\<lambda>prv. case prv of None \<Rightarrow> None | Some (Private_key t m) \<Rightarrow> Some (Public_key t ''public'')),
      publickey_to_string = (\<lambda>pub. Some ''host key blob''),
      dh_build_k = 0, make_sessionid = 0,
      ssh_sign_session_id =
        (\<lambda>prv. case prv of None \<Rightarrow> None | Some k \<Rightarrow> Some ''signature'')\<rparr>"

text \<open>A listener bound to descriptor 3 with no host key path, and one connection waiting.\<close>

definition example_bind :: ssh_bind where
  "example_bind =
     \<lparr>bindfd = 3, bindport = 22, bind_bindaddr = None, dsakey = None, rsakey = None,
      bind_wanted_methods = Map.empty, bind_log_verbosity = 0,
      bind_error_code = SSH_NO_ERROR, bind_error_buffer = []\<rparr>"

definition example_world :: world where
  "example_world = \<lparr>pending = [7], trace = []\<rparr>"

text \<open>The key loader finds a key of the requested type in every file; memory is there.\<close>

definition example_accept_env :: accept_env where
  "example_accept_env =
     \<lparr>privatekey_from_file = (\<lambda>path type. Inr (Private_key type path)),
      strerror_errno = ''Resource temporarily unavailable'',
      strdup_method_ok = (\<lambda>i. True),
      strdup_bindaddr_ok = True,
      ssh_socket_new_ok = True\<rparr>"

text \<open>\<^verbatim>\<open>strdup\<close> fails for the entry with index \<open>n\<close> and for no other.\<close>

definition failing_kex_env :: "nat \<Rightarrow> kex_env" where
  "failing_kex_env n =
     \<lparr>supported_methods = (\<lambda>i. ''none''),
      ssh_get_random = replicate 16 0,
      ssh_options_set_algo_ok = True,
      malloc_methods_ok = True,
      strdup_ok = (\<lambda>i. i \<noteq> n)\<rparr>"

text \<open>Four distinct bits for the four authentication methods.\<close>

definition example_bits :: auth_method_bits where
  "example_bits =
     \<lparr>SSH_AUTH_METHOD_PASSWORD = 2, SSH_AUTH_METHOD_PUBLICKEY = 4,
      SSH_AUTH_METHOD_HOSTBASED = 8, SSH_AUTH_METHOD_INTERACTIVE = 16\<rparr>"



text \<open>The private keys a trace loads and the private keys it frees, in order.\<close>

fun loaded_keys :: "event list \<Rightarrow> ssh_private_key list" where
  "loaded_keys [] = []"
| "loaded_keys (Privatekey_loaded k # es) = k # loaded_keys es"
| "loaded_keys (e # es) = loaded_keys es"

fun freed_keys :: "event list \<Rightarrow> ssh_private_key list" where
  "freed_keys [] = []"
| "freed_keys (Privatekey_freed k # es) = k # freed_keys es"
| "freed_keys (e # es) = freed_keys es"

section \<open>Properties\<close>

subsection \<open>Default reply to a channel request\<close>

text \<open>
  C7. For a channel request whose \<open>want_reply\<close> is false (zero), the default reply
  returns \<^verbatim>\<open>SSH_OK\<close> and is a no-op: the session it returns is the session it was given,
  so no session field changes, nothing is appended to the out buffer and nothing is
  sent, whatever the library calls would have answered and whatever the channel is.
\<close>

theorem channel_request_reply_default_noop:
  "ssh_message_channel_request_reply_default io (req\<lparr>want_reply := 0\<rparr>) session
     = (SSH_OK, session)"
  by (simp add: ssh_message_channel_request_reply_default_def)

subsection \<open>The Diffie-Hellman reply\<close>

text \<open>
  Every run of \<^verbatim>\<open>dh_handshake_server\<close> either leaves the wire as it was, or ends with
  both key slots empty and with the \<^verbatim>\<open>KEXDH_REPLY\<close> as the first packet it put on the
  wire.
\<close>

lemma dh_sent_or_cleared:
  "sent (snd (dh_handshake_server env session)) = sent session \<or>
   (rsa_key (snd (dh_handshake_server env session)) = None \<and>
    dsa_key (snd (dh_handshake_server env session)) = None \<and>
    (\<exists>pubkey f sign rest.
       sent (snd (dh_handshake_server env session)) =
         sent session @
           (out_buffer session @
              [U8 SSH2_MSG_KEXDH_REPLY, SSH_string pubkey, SSH_string f, SSH_string sign])
           # rest))"
  by (simp add: dh_handshake_server_def fatal_def ssh_set_error_def packet_send_def Let_def
        buffer_add_u8_def buffer_add_ssh_string_def buffer_reinit_def
      split: option.split ssh_keytypes_e.split prod.split)

lemma dh_strict_example:
  "dh_handshake_server strict_dh_env example_session =
     (0, example_session
           \<lparr>dh_handshake_state := DH_STATE_NEWKEYS_SENT, dsa_key := None, rsa_key := None,
            sent := [[U8 31, SSH_string ''host key blob'', SSH_string ''f'',
                      SSH_string ''signature''], [U8 21]]\<rparr>)"
  by (simp add: dh_handshake_server_def strict_dh_env_def example_session_def Let_def
      buffer_add_u8_def buffer_add_ssh_string_def buffer_reinit_def packet_send_def
      SSH_OK_def SSH_ERROR_def SSH2_MSG_KEXDH_REPLY_def SSH2_MSG_NEWKEYS_def)

text \<open>Once both slots are empty, the key exchange code leaves them empty.\<close>

lemma dh_keys_stay_empty:
  "rsa_key session = None \<Longrightarrow> dsa_key session = None \<Longrightarrow>
   rsa_key (snd (dh_handshake_server env session)) = None \<and>
   dsa_key (snd (dh_handshake_server env session)) = None"
  by (simp add: dh_handshake_server_def fatal_def ssh_set_error_def packet_send_def Let_def
      split: option.split ssh_keytypes_e.split prod.split)

lemma kexdh_init_keys_stay_empty:
  "rsa_key session = None \<Longrightarrow> dsa_key session = None \<Longrightarrow>
   rsa_key (snd (ssh_packet_kexdh_init env packet session)) = None \<and>
   dsa_key (snd (ssh_packet_kexdh_init env packet session)) = None"
  using dh_keys_stay_empty [of "session\<lparr>dh_handshake_state := DH_STATE_INIT_SENT\<rparr>" env]
  by (simp add: ssh_packet_kexdh_init_def fatal_def ssh_set_error_def split: option.split)

text \<open>
  C1. In every run of \<^verbatim>\<open>dh_handshake_server\<close> that emits the \<^verbatim>\<open>KEXDH_REPLY\<close> (the wire
  of the session it returns differs from the wire it started with, and then the first
  new packet is the reply), both host-key slots of the returned session are empty:
  \<open>rsa_key\<close> and \<open>dsa_key\<close> are \<^verbatim>\<open>NULL\<close>. This holds whatever the rest of the call
  does (the \<^verbatim>\<open>NEWKEYS\<close> packet may still fail) and whatever the helpers answer, and
  the slots stay empty through every later \<^verbatim>\<open>SSH_MSG_KEXDH_INIT\<close> packet the session
  is given.
\<close>

theorem dh_reply_clears_host_keys:
  assumes "dh_handshake_server env session = (rc, session')"
      and "sent session' \<noteq> sent session"
  shows "rsa_key session' = None \<and> dsa_key session' = None \<and>
         (\<exists>pubkey f sign rest.
            sent session' =
              sent session @
                (out_buffer session @
                   [U8 SSH2_MSG_KEXDH_REPLY, SSH_string pubkey, SSH_string f, SSH_string sign])
                # rest) \<and>
         (\<forall>env' packet.
            rsa_key (snd (ssh_packet_kexdh_init (env' :: dh_env) packet session')) = None \<and>
            dsa_key (snd (ssh_packet_kexdh_init env' packet session')) = None)"
proof -
  have k: "rsa_key session' = None \<and> dsa_key session' = None \<and>
         (\<exists>pubkey f sign rest.
            sent session' =
              sent session @
                (out_buffer session @
                   [U8 SSH2_MSG_KEXDH_REPLY, SSH_string pubkey, SSH_string f, SSH_string sign])
                # rest)"
    using assms dh_sent_or_cleared [of env session] by simp
  have "rsa_key (snd (ssh_packet_kexdh_init env' packet session')) = None \<and>
        dsa_key (snd (ssh_packet_kexdh_init env' packet session')) = None"
    for env' :: dh_env and packet
    using k by (intro kexdh_init_keys_stay_empty) simp_all
  then show ?thesis
    using k by simp
qed

theorem dh_reply_clears_host_keys_witness:
  "sent (snd (dh_handshake_server strict_dh_env example_session)) \<noteq> sent example_session \<and>
   rsa_key example_session = Some (Private_key SSH_KEYTYPE_RSA ''rsa secret'') \<and>
   rsa_key (snd (dh_handshake_server strict_dh_env example_session)) = None \<and>
   dsa_key (snd (dh_handshake_server strict_dh_env example_session)) = None"
proof -
  have ne: "sent (snd (dh_handshake_server strict_dh_env example_session))
              \<noteq> sent example_session"
    by (simp add: dh_strict_example) (simp add: example_session_def)
  show ?thesis
    using dh_reply_clears_host_keys [OF surjective_pairing ne] ne
    by (simp add: example_session_def)
qed

text \<open>
  C4. When the DH sub-state of the session is not \<^verbatim>\<open>DH_STATE_INIT\<close>, the callback for
  \<^verbatim>\<open>SSH_MSG_KEXDH_INIT\<close> returns \<^verbatim>\<open>SSH_PACKET_USED\<close> and the session it was given,
  unchanged in every field: no session state change, no change of the DH sub-state,
  nothing written to the out buffer, nothing sent, no error recorded.
\<close>

theorem kexdh_init_ignored_outside_init:
  "dh_handshake_state session \<noteq> DH_STATE_INIT \<Longrightarrow>
   ssh_packet_kexdh_init env packet session = (SSH_PACKET_USED, session)"
  by (simp add: ssh_packet_kexdh_init_def)

theorem kexdh_init_ignored_outside_init_witness:
  "dh_handshake_state (example_session\<lparr>dh_handshake_state := DH_STATE_NEWKEYS_SENT\<rparr>)
     \<noteq> DH_STATE_INIT \<and>
   ssh_packet_kexdh_init strict_dh_env [SSH_string ''e'']
     (example_session\<lparr>dh_handshake_state := DH_STATE_NEWKEYS_SENT\<rparr>) =
   (SSH_PACKET_USED, example_session\<lparr>dh_handshake_state := DH_STATE_NEWKEYS_SENT\<rparr>)"
  using kexdh_init_ignored_outside_init
          [of "example_session\<lparr>dh_handshake_state := DH_STATE_NEWKEYS_SENT\<rparr>"
              strict_dh_env "[SSH_string ''e'']"]
  by simp






subsection \<open>Receiving the client banner\<close>

lemma char_neq:
  "CR \<noteq> LF" "NUL \<noteq> LF" "CR \<noteq> NUL" "LF \<noteq> CR" "LF \<noteq> NUL" "NUL \<noteq> CR"
  by (simp_all add: CR_def LF_def NUL_def)

declare char_neq [simp]

text \<open>
  The loop steps over a prefix that holds no \<^verbatim>\<open>'\n'\<close> and writes \<^verbatim>\<open>'\0'\<close> over every
  \<^verbatim>\<open>'\r'\<close> it meets there.
\<close>

lemma scrub_step:
  assumes "i < length P"
  shows "(if P ! i = CR
          then (map (\<lambda>c. if c = CR then NUL else c) (take i P) @ drop i P @ rest)[i := NUL]
          else map (\<lambda>c. if c = CR then NUL else c) (take i P) @ drop i P @ rest) =
         map (\<lambda>c. if c = CR then NUL else c) (take (Suc i) P) @ drop (Suc i) P @ rest"
proof -
  have d: "drop i P = P ! i # drop (Suc i) P"
    using assms by (simp add: Cons_nth_drop_Suc)
  have t: "take (Suc i) P = take i P @ [P ! i]"
    using assms by (simp add: take_Suc_conv_app_nth)
  have l: "length (map (\<lambda>c. if c = CR then NUL else c) (take i P)) = i"
    using assms by simp
  show ?thesis
    unfolding d t using l by (simp add: list_update_append)
qed

lemma banner_skip_any:
  "i \<le> length P \<Longrightarrow> length P \<le> 128 \<Longrightarrow> LF \<notin> set P \<Longrightarrow>
   callback_receive_banner_loop cb ok i
     (map (\<lambda>c. if c = CR then NUL else c) (take i P) @ drop i P @ rest) session =
   callback_receive_banner_loop cb ok (length P)
     (map (\<lambda>c. if c = CR then NUL else c) P @ rest) session"
proof (induction "length P - i" arbitrary: i)
  case 0
  then show ?case by simp
next
  case (Suc n)
  let ?B = "map (\<lambda>c. if c = CR then NUL else c) (take i P) @ drop i P @ rest"
  have len: "i < length P" using Suc.hyps by simp
  have at: "?B ! i = P ! i"
    using len by (simp add: nth_append)
  have nolf: "P ! i \<noteq> LF"
    using len Suc.prems by (metis nth_mem)
  have small: "\<not> i > 127" using len Suc.prems by simp
  have lenB: "i < length ?B" using len by simp
  have "callback_receive_banner_loop cb ok i ?B session =
        callback_receive_banner_loop cb ok (i + 1)
          (if P ! i = CR then ?B[i := NUL] else ?B) session"
    using lenB at nolf small
    by (subst callback_receive_banner_loop.simps) (simp del: list_update_append)
  also have "\<dots> = callback_receive_banner_loop cb ok (Suc i)
      (map (\<lambda>c. if c = CR then NUL else c) (take (Suc i) P) @ drop (Suc i) P @ rest) session"
    using scrub_step [OF len, of rest] by simp
  also have "\<dots> = callback_receive_banner_loop cb ok (length P)
      (map (\<lambda>c. if c = CR then NUL else c) P @ rest) session"
    using Suc.hyps Suc.prems len by (intro Suc.hyps(1)) simp_all
  finally show ?case .
qed

text \<open>A line that ends in \<^verbatim>\<open>"\r\n"\<close>, and one that ends in \<^verbatim>\<open>'\n'\<close> alone.\<close>

lemma banner_line_any:
  assumes "LF \<notin> set P" "length P \<le> 127"
  shows "callback_receive_banner cb ok (P @ [CR, LF] @ rest) session =
     (int (length P) + 2,
      map (\<lambda>c. if c = CR then NUL else c) P @ [NUL, NUL] @ rest,
      cb (session\<lparr>clientbanner :=
                    strdup ok (map (\<lambda>c. if c = CR then NUL else c) P @ [NUL, NUL] @ rest),
                  session_state := SSH_SESSION_STATE_BANNER_RECEIVED\<rparr>))"
proof -
  let ?n = "length P"
  let ?S = "map (\<lambda>c. if c = CR then NUL else c) P"
  have l: "length ?S = ?n" by simp
  have "callback_receive_banner cb ok (P @ [CR, LF] @ rest) session =
        callback_receive_banner_loop cb ok ?n (?S @ [CR, LF] @ rest) session"
    unfolding callback_receive_banner_def
    using banner_skip_any [of 0 P cb ok "[CR, LF] @ rest" session] assms by simp
  also have "\<dots> = callback_receive_banner_loop cb ok (?n + 1) (?S @ [NUL, LF] @ rest) session"
    using assms l
    by (subst callback_receive_banner_loop.simps) (simp add: nth_append list_update_append)
  also have "\<dots> = (int ?n + 2, ?S @ [NUL, NUL] @ rest,
      cb (session\<lparr>clientbanner := strdup ok (?S @ [NUL, NUL] @ rest),
                  session_state := SSH_SESSION_STATE_BANNER_RECEIVED\<rparr>))"
    using l
    by (subst callback_receive_banner_loop.simps)
       (simp add: nth_append list_update_append Let_def)
  finally show ?thesis .
qed

lemma banner_line_lf_any:
  assumes "LF \<notin> set P" "length P \<le> 128"
  shows "callback_receive_banner cb ok (P @ LF # rest) session =
     (int (length P) + 1,
      map (\<lambda>c. if c = CR then NUL else c) P @ NUL # rest,
      cb (session\<lparr>clientbanner :=
                    strdup ok (map (\<lambda>c. if c = CR then NUL else c) P @ NUL # rest),
                  session_state := SSH_SESSION_STATE_BANNER_RECEIVED\<rparr>))"
proof -
  let ?S = "map (\<lambda>c. if c = CR then NUL else c) P"
  have l: "length ?S = length P" by simp
  have "callback_receive_banner cb ok (P @ LF # rest) session =
        callback_receive_banner_loop cb ok (length P) (?S @ LF # rest) session"
    unfolding callback_receive_banner_def
    using banner_skip_any [of 0 P cb ok "LF # rest" session] assms by simp
  also have "\<dots> = (int (length P) + 1, ?S @ NUL # rest,
      cb (session\<lparr>clientbanner := strdup ok (?S @ NUL # rest),
                  session_state := SSH_SESSION_STATE_BANNER_RECEIVED\<rparr>))"
    using l
    by (subst callback_receive_banner_loop.simps)
       (simp add: nth_append list_update_append Let_def)
  finally show ?thesis .
qed

text \<open>
  What \<^verbatim>\<open>strdup\<close> copies from the buffer the loop has written: the line up to its first
  \<^verbatim>\<open>'\r'\<close> or \<^verbatim>\<open>'\0'\<close>.
\<close>

lemma strdup_scrubbed:
  "strdup ok (map (\<lambda>c. if c = CR then NUL else c) P @ NUL # rest) =
     (if ok then Some (takeWhile (\<lambda>c. c \<noteq> CR \<and> c \<noteq> NUL) P) else None)"
  by (induction P) (auto simp: strdup_def)

lemma takeWhile_all_kept:
  "CR \<notin> set P \<Longrightarrow> NUL \<notin> set P \<Longrightarrow> takeWhile (\<lambda>c. c \<noteq> CR \<and> c \<noteq> NUL) P = P"
  by (induction P) auto

text \<open>
  With no \<^verbatim>\<open>'\n'\<close> up to index 128 the loop ends in the error branch; with no
  \<^verbatim>\<open>'\n'\<close> in a buffer of at most 128 bytes it runs off the end of the buffer.
\<close>

lemma banner_too_large_from:
  "129 \<le> length buffer \<Longrightarrow> i \<le> 128 \<Longrightarrow> (\<forall>j. i \<le> j \<and> j \<le> 128 \<longrightarrow> buffer ! j \<noteq> LF) \<Longrightarrow>
   fst (callback_receive_banner_loop cb ok i buffer session) = 0 \<and>
   snd (snd (callback_receive_banner_loop cb ok i buffer session)) =
     ssh_set_error (session\<lparr>session_state := SSH_SESSION_STATE_ERROR\<rparr>) SSH_FATAL
       ''Receiving banner: too large banner''"
proof (induction cb ok i buffer session rule: callback_receive_banner_loop.induct)
  case (1 cb ok i buffer session)
  define buffer1 where "buffer1 = (if buffer ! i = CR then buffer[i := NUL] else buffer)"
  have len: "i < length buffer" using "1.prems" by simp
  have nolf: "buffer1 ! i \<noteq> LF"
    using "1.prems" len by (simp add: buffer1_def)
  show ?case
  proof (cases "i > 127")
    case True
    then show ?thesis
      using len nolf
      by (subst (1 2) callback_receive_banner_loop.simps) (simp add: buffer1_def Let_def)
  next
    case False
    have rest: "\<forall>j. i + 1 \<le> j \<and> j \<le> 128 \<longrightarrow> buffer1 ! j \<noteq> LF"
      using "1.prems" by (simp add: buffer1_def)
    have "fst (callback_receive_banner_loop cb ok (i + 1) buffer1 session) = 0 \<and>
      snd (snd (callback_receive_banner_loop cb ok (i + 1) buffer1 session)) =
      ssh_set_error (session\<lparr>session_state := SSH_SESSION_STATE_ERROR\<rparr>) SSH_FATAL
       ''Receiving banner: too large banner''"
      using "1.IH" [OF len buffer1_def nolf False] "1.prems" False rest
      by (simp add: buffer1_def)
    then show ?thesis
      using len nolf False
      by (subst (1 2) callback_receive_banner_loop.simps) (simp add: buffer1_def Let_def)
  qed
qed

lemma banner_incomplete_from:
  "length buffer \<le> 128 \<Longrightarrow> (\<forall>j. i \<le> j \<and> j < length buffer \<longrightarrow> buffer ! j \<noteq> LF) \<Longrightarrow>
   fst (callback_receive_banner_loop cb ok i buffer session) = 0 \<and>
   snd (snd (callback_receive_banner_loop cb ok i buffer session)) = session"
proof (induction cb ok i buffer session rule: callback_receive_banner_loop.induct)
  case (1 cb ok i buffer session)
  define buffer1 where "buffer1 = (if buffer ! i = CR then buffer[i := NUL] else buffer)"
  show ?case
  proof (cases "i < length buffer")
    case False
    then show ?thesis
      by (subst (1 2) callback_receive_banner_loop.simps) simp
  next
    case len: True
    have nolf: "buffer1 ! i \<noteq> LF"
      using "1.prems" len by (simp add: buffer1_def)
    have small: "\<not> i > 127" using len "1.prems" by simp
    have rest: "\<forall>j. i + 1 \<le> j \<and> j < length buffer1 \<longrightarrow> buffer1 ! j \<noteq> LF"
      using "1.prems" by (simp add: buffer1_def)
    have "fst (callback_receive_banner_loop cb ok (i + 1) buffer1 session) = 0 \<and>
      snd (snd (callback_receive_banner_loop cb ok (i + 1) buffer1 session)) = session"
      using "1.IH" [OF len buffer1_def nolf small] "1.prems" rest
      by (simp add: buffer1_def)
    then show ?thesis
      using len nolf small
      by (subst (1 2) callback_receive_banner_loop.simps) (simp add: buffer1_def Let_def)
  qed
qed

text \<open>
  C2, as the code has it. The test \<^verbatim>\<open>i > 127\<close> comes after the test for \<^verbatim>\<open>'\n'\<close> and
  is first true at index 128: the session moves to \<^verbatim>\<open>SSH_SESSION_STATE_ERROR\<close> with the
  error "Receiving banner: too large banner" (and 0 is returned) when the first 129
  bytes of the buffer hold no \<^verbatim>\<open>'\n'\<close>. A buffer of at most 128 bytes without \<^verbatim>\<open>'\n'\<close>,
  so also one of exactly 128 bytes, returns 0 and leaves the session as it was. A
  banner of 129 bytes, the \<^verbatim>\<open>'\n'\<close> included, is still accepted, whatever follows it in
  the buffer: the bound on the banner with its terminator is 129 bytes.
\<close>

theorem banner_too_large_at_129:
  "(129 \<le> length data \<and> LF \<notin> set (take 129 data) \<longrightarrow>
      fst (callback_receive_banner cb ok data session) = 0 \<and>
      snd (snd (callback_receive_banner cb ok data session)) =
        ssh_set_error (session\<lparr>session_state := SSH_SESSION_STATE_ERROR\<rparr>) SSH_FATAL
          ''Receiving banner: too large banner'') \<and>
   (length data \<le> 128 \<and> LF \<notin> set data \<longrightarrow>
      fst (callback_receive_banner cb ok data session) = 0 \<and>
      snd (snd (callback_receive_banner cb ok data session)) = session) \<and>
   (length data = 128 \<and> LF \<notin> set data \<longrightarrow>
      fst (callback_receive_banner cb ok (data @ LF # rest) session) = 129)"
proof (intro conjI impI)
  assume h: "129 \<le> length data \<and> LF \<notin> set (take 129 data)"
  have "data ! j \<noteq> LF" if "j \<le> 128" for j
  proof -
    have "j < length (take 129 data)" using h that by simp
    then have "take 129 data ! j \<in> set (take 129 data)" by (rule nth_mem)
    then show ?thesis using h that by auto
  qed
  then have "\<forall>j. 0 \<le> j \<and> j \<le> 128 \<longrightarrow> data ! j \<noteq> LF" by simp
  with h show "fst (callback_receive_banner cb ok data session) = 0"
    and "snd (snd (callback_receive_banner cb ok data session)) =
        ssh_set_error (session\<lparr>session_state := SSH_SESSION_STATE_ERROR\<rparr>) SSH_FATAL
          ''Receiving banner: too large banner''"
    unfolding callback_receive_banner_def
    using banner_too_large_from [of data 0 cb ok session] by simp_all
next
  assume h: "length data \<le> 128 \<and> LF \<notin> set data"
  then have "\<forall>j. 0 \<le> j \<and> j < length data \<longrightarrow> data ! j \<noteq> LF"
    by (metis nth_mem)
  with h show "fst (callback_receive_banner cb ok data session) = 0"
    and "snd (snd (callback_receive_banner cb ok data session)) = session"
    unfolding callback_receive_banner_def
    using banner_incomplete_from [of data 0 cb ok session] by simp_all
next
  assume "length data = 128 \<and> LF \<notin> set data"
  then show "fst (callback_receive_banner cb ok (data @ LF # rest) session) = 129"
    using banner_line_lf_any [of data cb ok rest session] by simp
qed

theorem banner_too_large_at_129_witness:
  "fst (callback_receive_banner id True (replicate 129 (CHR ''A'')) example_session) = 0 \<and>
   session_state (snd (snd (callback_receive_banner id True (replicate 129 (CHR ''A''))
      example_session))) = SSH_SESSION_STATE_ERROR \<and>
   error_buffer (snd (snd (callback_receive_banner id True (replicate 129 (CHR ''A''))
      example_session))) = ''Receiving banner: too large banner'' \<and>
   snd (snd (callback_receive_banner id True (replicate 128 (CHR ''A'')) example_session)) =
     example_session \<and>
   fst (callback_receive_banner id True (replicate 128 (CHR ''A'') @ [LF]) example_session) = 129"
  using banner_too_large_at_129 [of "replicate 129 (CHR ''A'')" id True example_session "[]"]
        banner_too_large_at_129 [of "replicate 128 (CHR ''A'')" id True example_session "[]"]
  by (simp add: LF_def ssh_set_error_def)

text \<open>
  The claim as the specification words it fails on the code: after 128 bytes without
  \<^verbatim>\<open>'\n'\<close> the callback returns 0 and the session is in the state it had, with no error
  recorded.
\<close>

theorem banner_128_bytes_not_too_large:
  "fst (callback_receive_banner id True (replicate 128 (CHR ''A'')) example_session) = 0 \<and>
   session_state (snd (snd (callback_receive_banner id True (replicate 128 (CHR ''A''))
      example_session))) = SSH_SESSION_STATE_SOCKET_CONNECTED \<and>
   error_code (snd (snd (callback_receive_banner id True (replicate 128 (CHR ''A''))
      example_session))) = SSH_NO_ERROR"
  using banner_incomplete_from [of "replicate 128 (CHR ''A'')" 0 id True example_session]
  by (simp add: callback_receive_banner_def LF_def example_session_def)

text \<open>
  C3, as the code has it. For a buffer that starts with the line \<^verbatim>\<open>SSH-2.0-X\r\n\<close>,
  where \<open>X\<close> holds no \<^verbatim>\<open>'\n'\<close> and the \<^verbatim>\<open>'\n'\<close> of the line lies at index 128 at most
  (\<open>X\<close> has at most 119 characters): the callback returns the position just after the
  \<^verbatim>\<open>'\n'\<close> (the length of \<open>X\<close> plus 10), sets the session state to
  \<^verbatim>\<open>SSH_SESSION_STATE_BANNER_RECEIVED\<close> and hands the session in that state to the
  connection callback, whose result is the session returned. The client banner it stores
  is what \<^verbatim>\<open>strdup\<close> copies from the buffer after every \<^verbatim>\<open>'\r'\<close> of the line was
  overwritten with \<^verbatim>\<open>'\0'\<close>: the part of \<^verbatim>\<open>SSH-2.0-X\<close> before its first \<^verbatim>\<open>'\r'\<close> or
  \<^verbatim>\<open>'\0'\<close>, and \<^verbatim>\<open>NULL\<close> when \<^verbatim>\<open>strdup\<close> finds no memory. It is \<^verbatim>\<open>SSH-2.0-X\<close> itself
  when \<open>X\<close> holds neither \<^verbatim>\<open>'\r'\<close> nor \<^verbatim>\<open>'\0'\<close> and the copy is made. What follows the
  line in the buffer plays no role.
\<close>

theorem banner_received:
  assumes "LF \<notin> set X" "length X \<le> 119"
  shows "callback_receive_banner ssh_connection_callback ok
           (''SSH-2.0-'' @ X @ [CR, LF] @ rest) session =
         (int (length X) + 10,
          map (\<lambda>c. if c = CR then NUL else c) (''SSH-2.0-'' @ X) @ [NUL, NUL] @ rest,
          ssh_connection_callback
            (session\<lparr>clientbanner :=
                       (if ok
                        then Some (takeWhile (\<lambda>c. c \<noteq> CR \<and> c \<noteq> NUL) (''SSH-2.0-'' @ X))
                        else None),
                     session_state := SSH_SESSION_STATE_BANNER_RECEIVED\<rparr>)) \<and>
         (CR \<notin> set X \<and> NUL \<notin> set X \<longrightarrow>
            takeWhile (\<lambda>c. c \<noteq> CR \<and> c \<noteq> NUL) (''SSH-2.0-'' @ X) = ''SSH-2.0-'' @ X)"
proof -
  let ?P = "''SSH-2.0-'' @ X"
  have P: "LF \<notin> set ?P" "length ?P \<le> 127"
    using assms by (simp_all add: LF_def)
  have keep: "takeWhile (\<lambda>c. c \<noteq> CR \<and> c \<noteq> NUL) ?P = ?P" if "CR \<notin> set X \<and> NUL \<notin> set X"
    using that by (intro takeWhile_all_kept) (simp_all add: CR_def NUL_def)
  have "callback_receive_banner ssh_connection_callback ok (?P @ [CR, LF] @ rest) session =
     (int (length ?P) + 2,
      map (\<lambda>c. if c = CR then NUL else c) ?P @ [NUL, NUL] @ rest,
      ssh_connection_callback (session\<lparr>clientbanner :=
                    strdup ok (map (\<lambda>c. if c = CR then NUL else c) ?P @ [NUL, NUL] @ rest),
                  session_state := SSH_SESSION_STATE_BANNER_RECEIVED\<rparr>))"
    using P by (rule banner_line_any)
  moreover have "strdup ok (map (\<lambda>c. if c = CR then NUL else c) ?P @ [NUL, NUL] @ rest) =
      (if ok then Some (takeWhile (\<lambda>c. c \<noteq> CR \<and> c \<noteq> NUL) ?P) else None)"
    using strdup_scrubbed [of ok ?P "NUL # rest"] by simp
  ultimately show ?thesis
    using keep by simp
qed

theorem banner_received_witness:
  "LF \<notin> set ''Test'' \<and> length ''Test'' \<le> 119 \<and> CR \<notin> set ''Test'' \<and> NUL \<notin> set ''Test'' \<and>
   callback_receive_banner id True (''SSH-2.0-Test'' @ [CR, LF]) example_session =
     (14, ''SSH-2.0-Test'' @ [NUL, NUL],
      example_session\<lparr>clientbanner := Some ''SSH-2.0-Test'',
                      session_state := SSH_SESSION_STATE_BANNER_RECEIVED\<rparr>)"
  using banner_received [of "''Test''" id True "[]" example_session]
  by (simp add: CR_def LF_def NUL_def)

text \<open>
  The claim as the specification words it fails on the code: for the lines
  \<^verbatim>\<open>SSH-2.0-a\rb\r\n\<close> and \<^verbatim>\<open>SSH-2.0-a\0b\r\n\<close> the banner stored is \<^verbatim>\<open>SSH-2.0-a\<close>, and
  when \<^verbatim>\<open>strdup\<close> returns \<^verbatim>\<open>NULL\<close> no banner is stored, while the count is returned and
  the state is set all the same.
\<close>

theorem banner_cut_at_cr_or_nul:
  "clientbanner (snd (snd (callback_receive_banner id True
      (''SSH-2.0-a'' @ [CR] @ ''b'' @ [CR, LF]) example_session))) = Some ''SSH-2.0-a'' \<and>
   clientbanner (snd (snd (callback_receive_banner id True
      (''SSH-2.0-a'' @ [NUL] @ ''b'' @ [CR, LF]) example_session))) = Some ''SSH-2.0-a'' \<and>
   clientbanner (snd (snd (callback_receive_banner id False
      (''SSH-2.0-Test'' @ [CR, LF]) example_session))) = None \<and>
   session_state (snd (snd (callback_receive_banner id False
      (''SSH-2.0-Test'' @ [CR, LF]) example_session))) = SSH_SESSION_STATE_BANNER_RECEIVED \<and>
   fst (callback_receive_banner id False (''SSH-2.0-Test'' @ [CR, LF]) example_session) = 14"
  using banner_line_any [of "''SSH-2.0-a'' @ [CR] @ ''b''" id True "[]" example_session]
        banner_line_any [of "''SSH-2.0-a'' @ [NUL] @ ''b''" id True "[]" example_session]
        banner_line_any [of "''SSH-2.0-Test''" id False "[]" example_session]
  by (simp add: strdup_def CR_def LF_def NUL_def)


subsection \<open>Accepting a connection\<close>

text \<open>
  C6, as the code has it. With neither host key path configured \<^verbatim>\<open>ssh_bind_accept\<close>
  returns \<^verbatim>\<open>SSH_ERROR\<close> and leaves the session and the world as they were: the
  \<^verbatim>\<open>accept\<close> of the operating system is not called and no waiting connection is
  taken. The error it records is the missing-host-key error when the listener is bound
  and the session is not \<^verbatim>\<open>NULL\<close>; the tests for a listener that is not bound and for
  a \<^verbatim>\<open>NULL\<close> session come first and record their own errors.
\<close>

theorem accept_without_host_key_path:
  "dsakey sshbind = None \<Longrightarrow> rsakey sshbind = None \<Longrightarrow>
   ssh_bind_accept env sshbind session w =
     (SSH_ERROR,
      ssh_bind_set_error sshbind SSH_FATAL
        (if bindfd sshbind = SSH_INVALID_SOCKET
         then ''Can't accept new clients on a not bound socket.''
         else if session = None then ''session is null''
         else ''DSA or RSA host key file must be set before accept()''),
      session, w)"
  by (simp add: ssh_bind_accept_def split: option.split)

theorem accept_without_host_key_path_witness:
  "dsakey example_bind = None \<and> rsakey example_bind = None \<and>
   ssh_bind_accept example_accept_env example_bind (Some example_session) example_world =
     (SSH_ERROR,
      ssh_bind_set_error example_bind SSH_FATAL
        ''DSA or RSA host key file must be set before accept()'',
      Some example_session, example_world) \<and>
   pending example_world = [7]"
  using accept_without_host_key_path [of example_bind example_accept_env "Some example_session" example_world]
  by (simp add: example_bind_def example_world_def SSH_INVALID_SOCKET_def)

text \<open>
  The claim as the specification words it fails on the code: a listener that has no
  host key path and was never bound gets the not-bound error, not the missing-host-key
  error.
\<close>

theorem accept_unbound_reports_not_bound:
  "bind_error_buffer (fst (snd (ssh_bind_accept example_accept_env
      (example_bind\<lparr>bindfd := SSH_INVALID_SOCKET\<rparr>) (Some example_session) example_world))) =
     ''Can't accept new clients on a not bound socket.''"
  by (simp add: ssh_bind_accept_def ssh_bind_set_error_def)

text \<open>The helpers of \<^verbatim>\<open>ssh_bind_accept\<close> and the key slots, the loads and the frees.\<close>

lemma loaded_keys_append: "loaded_keys (xs @ ys) = loaded_keys xs @ loaded_keys ys"
  by (induction xs rule: loaded_keys.induct) simp_all

lemma freed_keys_append: "freed_keys (xs @ ys) = freed_keys xs @ freed_keys ys"
  by (induction xs rule: freed_keys.induct) simp_all

lemma copy_options_keys:
  "dsa_key (snd (copy_options env sshbind i session)) = dsa_key session \<and>
   rsa_key (snd (copy_options env sshbind i session)) = rsa_key session"
proof (induction env sshbind i session rule: copy_options.induct)
  case (1 env sshbind i session)
  show ?case
  proof (cases "i < 10")
    case False
    then show ?thesis by (subst (1 2) copy_options.simps) simp
  next
    case True
    show ?thesis
    proof (cases "bind_wanted_methods sshbind i")
      case None
      then show ?thesis
        using True "1.IH"(1) [OF True None] by (subst (1 2) copy_options.simps) simp
    next
      case (Some m)
      then show ?thesis
        using True "1.IH"(2) [OF True Some refl refl]
        by (subst (1 2) copy_options.simps) (simp add: Let_def)
    qed
  qed
qed

lemma copy_options_keys_dest:
  "copy_options env sshbind i session = (copied, s1) \<Longrightarrow>
     dsa_key s1 = dsa_key session \<and> rsa_key s1 = rsa_key session"
  using copy_options_keys [of env sshbind i session] by simp

lemma privatekey_free_trace:
  "loaded_keys (trace (privatekey_free prv w)) = loaded_keys (trace w)"
  "freed_keys (trace (privatekey_free prv w)) = freed_keys (trace w) @ (case prv of None \<Rightarrow> [] | Some k \<Rightarrow> [k])"
  "pending (privatekey_free prv w) = pending w"
  by (simp_all add: privatekey_free_def loaded_keys_append freed_keys_append split: option.split)

lemma os_accept_trace:
  "loaded_keys (trace (snd (os_accept w))) = loaded_keys (trace w)"
  "freed_keys (trace (snd (os_accept w))) = freed_keys (trace w)"
  by (simp_all add: os_accept_def loaded_keys_append freed_keys_append split: list.split)

lemma os_accept_trace_dest:
  "os_accept w = (fd, w') \<Longrightarrow> loaded_keys (trace w') = loaded_keys (trace w) \<and> freed_keys (trace w') = freed_keys (trace w)"
  using os_accept_trace [of w] by simp

lemma load_privatekey_trace:
  "load_privatekey env sshbind path type w = Inr (k, w') \<Longrightarrow>
    loaded_keys (trace w') = loaded_keys (trace w) @ [k] \<and> freed_keys (trace w') = freed_keys (trace w)"
  by (auto simp: load_privatekey_def loaded_keys_append freed_keys_append split: sum.splits)

text \<open>
  C9. Whenever \<^verbatim>\<open>ssh_bind_accept\<close> returns an error (any result other than \<^verbatim>\<open>SSH_OK\<close>:
  listener not bound, \<^verbatim>\<open>NULL\<close> session, no key path, a key that does not load, a
  failing \<^verbatim>\<open>accept\<close>, a failing allocation), the host-key slots of the session are
  what they were before the call, and every private key the call loaded has been
  freed: the keys loaded and the keys freed during the call are the same list. When it
  returns \<^verbatim>\<open>SSH_OK\<close>, nothing was freed and the slots of the session hold exactly the
  keys the call loaded.
\<close>

theorem accept_error_keeps_host_key_slots:
  assumes "ssh_bind_accept env sshbind session w = (rc, sshbind', session', w')"
  shows "(rc \<noteq> SSH_OK \<longrightarrow>
            map_option dsa_key session' = map_option dsa_key session \<and>
            map_option rsa_key session' = map_option rsa_key session \<and>
            (\<exists>ks. loaded_keys (trace w') = loaded_keys (trace w) @ ks \<and>
                  freed_keys (trace w') = freed_keys (trace w) @ ks)) \<and>
         (rc = SSH_OK \<longrightarrow>
            freed_keys (trace w') = freed_keys (trace w) \<and>
            (\<exists>s'. session' = Some s' \<and>
                  loaded_keys (trace w') =
                    loaded_keys (trace w)
                    @ (case dsa_key s' of None \<Rightarrow> [] | Some k \<Rightarrow> [k])
                    @ (case rsa_key s' of None \<Rightarrow> [] | Some k \<Rightarrow> [k])))"
  using assms
  by (auto simp: ssh_bind_accept_def Let_def privatekey_free_trace SSH_OK_def SSH_ERROR_def
      split: if_splits option.splits sum.splits prod.splits
      dest!: copy_options_keys_dest os_accept_trace_dest load_privatekey_trace)

text \<open>
  A listener with both key files and no connection waiting: both keys are loaded,
  \<^verbatim>\<open>accept\<close> fails, both keys are freed and the session is as before.
\<close>

lemma accept_failing_example:
  "ssh_bind_accept example_accept_env
     (example_bind\<lparr>dsakey := Some ''ssh_host_dsa_key'', rsakey := Some ''ssh_host_rsa_key''\<rparr>)
     (Some example_session) (example_world\<lparr>pending := []\<rparr>) =
   (SSH_ERROR,
    ssh_bind_set_error
      (example_bind\<lparr>dsakey := Some ''ssh_host_dsa_key'', rsakey := Some ''ssh_host_rsa_key''\<rparr>)
      SSH_FATAL ''Accepting a new connection: Resource temporarily unavailable'',
    Some example_session,
    \<lparr>pending = [],
     trace = [Privatekey_loaded (Private_key SSH_KEYTYPE_DSS ''ssh_host_dsa_key''),
              Privatekey_loaded (Private_key SSH_KEYTYPE_RSA ''ssh_host_rsa_key''),
              Os_accept,
              Privatekey_freed (Private_key SSH_KEYTYPE_DSS ''ssh_host_dsa_key''),
              Privatekey_freed (Private_key SSH_KEYTYPE_RSA ''ssh_host_rsa_key'')]\<rparr>)"
  by (simp add: ssh_bind_accept_def example_accept_env_def example_bind_def example_world_def
       load_privatekey_def os_accept_def privatekey_free_def SSH_INVALID_SOCKET_def)

theorem accept_error_keeps_host_key_slots_witness:
  "SSH_ERROR \<noteq> SSH_OK \<and>
   fst (ssh_bind_accept example_accept_env
     (example_bind\<lparr>dsakey := Some ''ssh_host_dsa_key'', rsakey := Some ''ssh_host_rsa_key''\<rparr>)
     (Some example_session) (example_world\<lparr>pending := []\<rparr>)) = SSH_ERROR \<and>
   fst (snd (snd (ssh_bind_accept example_accept_env
     (example_bind\<lparr>dsakey := Some ''ssh_host_dsa_key'', rsakey := Some ''ssh_host_rsa_key''\<rparr>)
     (Some example_session) (example_world\<lparr>pending := []\<rparr>)))) = Some example_session \<and>
   loaded_keys (trace (snd (snd (snd (ssh_bind_accept example_accept_env
     (example_bind\<lparr>dsakey := Some ''ssh_host_dsa_key'', rsakey := Some ''ssh_host_rsa_key''\<rparr>)
     (Some example_session) (example_world\<lparr>pending := []\<rparr>)))))) =
     [Private_key SSH_KEYTYPE_DSS ''ssh_host_dsa_key'',
      Private_key SSH_KEYTYPE_RSA ''ssh_host_rsa_key''] \<and>
   freed_keys (trace (snd (snd (snd (ssh_bind_accept example_accept_env
     (example_bind\<lparr>dsakey := Some ''ssh_host_dsa_key'', rsakey := Some ''ssh_host_rsa_key''\<rparr>)
     (Some example_session) (example_world\<lparr>pending := []\<rparr>)))))) =
     [Private_key SSH_KEYTYPE_DSS ''ssh_host_dsa_key'',
      Private_key SSH_KEYTYPE_RSA ''ssh_host_rsa_key'']"
proof -
  have ne: "SSH_ERROR \<noteq> SSH_OK"
    by (simp add: SSH_ERROR_def SSH_OK_def)
  show ?thesis
    using accept_error_keeps_host_key_slots [OF accept_failing_example] ne
    by (simp add: accept_failing_example)
qed

subsection \<open>Setting the server's key exchange methods\<close>

text \<open>
  The inner loop runs while \<^verbatim>\<open>j <= 0\<close>: it does nothing when it starts above 0, and
  from 0 or below it walks down and leaves the array.
\<close>

lemma free_methods_loop_positive:
  "0 < j \<Longrightarrow> free_methods_loop j m tr = Inr (m, tr)"
  by (subst free_methods_loop.simps) simp

lemma free_methods_loop_negative:
  "j < 0 \<Longrightarrow> free_methods_loop j m tr = Inl Out_of_bounds"
  by (subst free_methods_loop.simps) simp

lemma free_methods_loop_zero:
  "free_methods_loop 0 m tr = Inl Out_of_bounds"
  by (subst free_methods_loop.simps) (simp add: free_methods_loop_negative)

lemma set_methods_loop_fails_at:
  assumes "2 \<le> n" "n < 10" "\<not> strdup_ok env n" "\<forall>j<n. strdup_ok env j" "i \<le> n"
  shows "set_methods_loop env session i m tr =
         Inr (Some (- 1), None, tr @ map Strdup_method [i..<n] @ [Free_methods])"
  using assms(5)
proof (induction "n - i" arbitrary: i m tr)
  case 0
  then have "i = n" by simp
  then show ?case
    using assms(1-3)
    by (subst set_methods_loop.simps) (simp add: strdup_def free_methods_loop_positive)
next
  case (Suc d)
  then have lt: "i < n" by simp
  then have ok: "strdup_ok env i" using assms(4) by simp
  have "set_methods_loop env session i m tr =
        set_methods_loop env session (i + 1)
          (m(i \<mapsto> takeWhile (\<lambda>c. c \<noteq> NUL)
             (case wanted_methods session i of None \<Rightarrow> supported_methods env i | Some w \<Rightarrow> w)))
          (tr @ [Strdup_method i])"
    using lt ok assms(2)
    by (subst set_methods_loop.simps) (simp add: strdup_def Let_def)
  also have "\<dots> = Inr (Some (- 1), None,
       (tr @ [Strdup_method i]) @ map Strdup_method [i + 1..<n] @ [Free_methods])"
    using Suc.hyps lt by (intro Suc.hyps(1)) simp_all
  finally show ?case
    using lt by (simp add: upt_conv_Cons)
qed

text \<open>
  C8 does not hold of the code. When the \<^verbatim>\<open>strdup\<close> of entry \<open>n\<close> fails, for \<open>n\<close> from 2
  to 9, after the entries before it were allocated, \<^verbatim>\<open>server_set_kex\<close> returns \<open>- 1\<close>
  and the memory calls it has made are the \<^verbatim>\<open>malloc\<close> of the array, the \<open>n\<close> copies and the
  \<^verbatim>\<open>free\<close> of the array: none of the entries \<open>0\<close> to \<open>n - 1\<close> is freed. The inner loop
  starts at \<open>n - 1 > 0\<close> and its condition \<^verbatim>\<open>j <= 0\<close> is false at once.
\<close>

theorem server_set_kex_frees_nothing:
  assumes "2 \<le> n" "n < 10" "\<not> strdup_ok env n" "\<forall>j<n. strdup_ok env j"
    "ssh_options_set_algo_ok env" "malloc_methods_ok env"
  shows "\<exists>session'. server_set_kex env session =
           Inr (- 1, session', Malloc_methods # map Strdup_method [0..<n] @ [Free_methods])"
  using assms set_methods_loop_fails_at [OF assms(1-4), of 0]
  by (simp add: server_set_kex_def Let_def ssh_options_set_algo_def)

theorem server_set_kex_frees_nothing_witness:
  "2 \<le> (2::nat) \<and> (2::nat) < 10 \<and> \<not> strdup_ok (failing_kex_env 2) 2 \<and>
   strdup_ok (failing_kex_env 2) 0 \<and> strdup_ok (failing_kex_env 2) 1 \<and>
   (\<exists>session'. server_set_kex (failing_kex_env 2) example_session =
      Inr (- 1, session', [Malloc_methods, Strdup_method 0, Strdup_method 1, Free_methods]))"
  using server_set_kex_frees_nothing [of 2 "failing_kex_env 2" example_session]
  by (simp add: failing_kex_env_def upt_conv_Cons)

text \<open>
  The same run in full at \<open>n = 2\<close>, and the runs for \<open>n = 1\<close> and \<open>n = 0\<close>: there the
  inner loop reaches \<^verbatim>\<open>server->methods[-1]\<close>.
\<close>

lemma server_set_kex_fails_at_2:
  "server_set_kex (failing_kex_env 2) example_session =
     Inr (- 1,
          example_session
            \<lparr>server_kex := \<lparr>cookie = replicate 16 0, methods = None\<rparr>,
             wanted_methods := [SSH_HOSTKEYS \<mapsto> ''ssh-dss,ssh-rsa'']\<rparr>,
          [Malloc_methods, Strdup_method 0, Strdup_method 1, Free_methods])"
  by (simp add: server_set_kex_def Let_def ssh_options_set_algo_def failing_kex_env_def
       set_methods_loop.simps [of _ _ 0] set_methods_loop.simps [of _ _ "Suc 0"]
       set_methods_loop.simps [of _ _ "Suc (Suc 0)"]
       strdup_def free_methods_loop_positive example_session_def)

lemma server_set_kex_fails_at_1: "server_set_kex (failing_kex_env 1) example_session = Inl Out_of_bounds"
  by (simp add: server_set_kex_def Let_def ssh_options_set_algo_def failing_kex_env_def
       set_methods_loop.simps [of _ _ 0] set_methods_loop.simps [of _ _ "Suc 0"]
       strdup_def free_methods_loop_zero)

lemma server_set_kex_fails_at_0: "server_set_kex (failing_kex_env 0) example_session = Inl Out_of_bounds"
  by (simp add: server_set_kex_def Let_def ssh_options_set_algo_def failing_kex_env_def
       set_methods_loop.simps [of _ _ 0] strdup_def free_methods_loop_negative)

subsection \<open>Default reply to an authentication request\<close>

lemma or_and_absorb_left: "((a :: u32) OR b) AND a = a"
  by (rule bit_eqI) (auto simp: bit_and_iff bit_or_iff)

lemma or_and_absorb_right: "((a :: u32) OR b) AND b = b"
  by (rule bit_eqI) (auto simp: bit_and_iff bit_or_iff)

lemma methods_c_default_nonempty:
  assumes "SSH_AUTH_METHOD_PUBLICKEY bits OR SSH_AUTH_METHOD_PASSWORD bits \<noteq> 0"
  shows "methods_c bits (SSH_AUTH_METHOD_PUBLICKEY bits OR SSH_AUTH_METHOD_PASSWORD bits) \<noteq> []"
proof (cases "SSH_AUTH_METHOD_PUBLICKEY bits = 0")
  case False
  then show ?thesis by (simp add: methods_c_def or_and_absorb_left)
next
  case True
  then have "SSH_AUTH_METHOD_PASSWORD bits \<noteq> 0" using assms by simp
  then show ?thesis by (simp add: methods_c_def or_and_absorb_right)
qed

lemma auth_reply_default_mask:
  assumes "methods_c bits (if auth_methods session = 0
             then SSH_AUTH_METHOD_PUBLICKEY bits OR SSH_AUTH_METHOD_PASSWORD bits
             else auth_methods session) \<noteq> []"
      and "buffer_ok io 0"
  shows "\<exists>rc session'. ssh_message_auth_reply_default bits io session partial = Inr (rc, session') \<and>
          auth_methods session' =
            (if auth_methods session = 0
             then SSH_AUTH_METHOD_PUBLICKEY bits OR SSH_AUTH_METHOD_PASSWORD bits
             else auth_methods session)"
  using assms
  by (auto simp: ssh_message_auth_reply_default_def buffer_add_u8_def Let_def packet_send_def
      split: option.split)

lemma auth_reply_default_later:
  assumes "auth_methods session \<noteq> 0" and "methods_c bits (auth_methods session) \<noteq> []"
  shows "case ssh_message_auth_reply_default bits io session partial of
           Inl f \<Rightarrow> False
         | Inr (rc, session') \<Rightarrow>
             auth_methods session' = auth_methods session \<and>
             (if rc = SSH_OK
              then sent session' = sent session @
                     [out_buffer session @ [U8 SSH2_MSG_USERAUTH_FAILURE,
                        SSH_string (butlast (methods_c bits (auth_methods session))),
                        U8 (if partial \<noteq> 0 then 1 else 0)]]
              else True)"
  using assms
  by (simp add: ssh_message_auth_reply_default_def buffer_add_u8_def Let_def packet_send_def
        buffer_add_ssh_string_def ssh_string_from_char_def SSH_OK_def SSH_ERROR_def)

lemma auth_reply_default_sent:
  assumes "auth_methods session \<noteq> 0" and "methods_c bits (auth_methods session) \<noteq> []"
    and "ssh_message_auth_reply_default bits io session partial = Inr (rc, session')"
  shows "auth_methods session' = auth_methods session \<and>
         (rc = SSH_OK \<longrightarrow> sent session' = sent session @
           [out_buffer session @ [U8 SSH2_MSG_USERAUTH_FAILURE,
               SSH_string (butlast (methods_c bits (auth_methods session))),
               U8 (if partial \<noteq> 0 then 1 else 0)]])"
  using auth_reply_default_later [OF assms(1,2), where io = io and partial = partial] assms(3)
  by simp

text \<open>
  C10. When the mask \<open>auth_methods\<close> of the session is 0 and the reply is begun (its
  first byte finds room in the out buffer), the default reply leaves the mask of the
  session at \<^verbatim>\<open>SSH_AUTH_METHOD_PUBLICKEY | SSH_AUTH_METHOD_PASSWORD\<close>, whether the rest of
  the reply succeeds or not. The mask stays: every later default reply on that session
  returns a session with the same mask, and when it is sent it advertises the names of
  that stored mask. The two bits are parameters; they are not both zero.
\<close>

theorem auth_reply_default_mask_persists:
  assumes "auth_methods session = 0"
      and "buffer_ok io 0"
      and "SSH_AUTH_METHOD_PUBLICKEY bits OR SSH_AUTH_METHOD_PASSWORD bits \<noteq> 0"
  shows "\<exists>rc session'.
           ssh_message_auth_reply_default bits io session partial = Inr (rc, session') \<and>
           auth_methods session' =
             SSH_AUTH_METHOD_PUBLICKEY bits OR SSH_AUTH_METHOD_PASSWORD bits \<and>
           (\<forall>io' partial' rc' session''.
              ssh_message_auth_reply_default bits io' session' partial' = Inr (rc', session'') \<longrightarrow>
                auth_methods session'' =
                  SSH_AUTH_METHOD_PUBLICKEY bits OR SSH_AUTH_METHOD_PASSWORD bits \<and>
                (rc' = SSH_OK \<longrightarrow>
                   sent session'' = sent session' @
                     [out_buffer session' @
                        [U8 SSH2_MSG_USERAUTH_FAILURE,
                         SSH_string (butlast (methods_c bits
                           (SSH_AUTH_METHOD_PUBLICKEY bits OR SSH_AUTH_METHOD_PASSWORD bits))),
                         U8 (if partial' \<noteq> 0 then 1 else 0)]]))"
proof -
  let ?m = "SSH_AUTH_METHOD_PUBLICKEY bits OR SSH_AUTH_METHOD_PASSWORD bits"
  have ne: "methods_c bits ?m \<noteq> []"
    using assms(3) by (rule methods_c_default_nonempty)
  obtain rc session' where
    r: "ssh_message_auth_reply_default bits io session partial = Inr (rc, session')"
    and m: "auth_methods session' = ?m"
    using auth_reply_default_mask [where bits = bits and session = session and io = io and partial = partial] assms(1,2) ne by auto
  have "auth_methods session'' = ?m \<and>
        (rc' = SSH_OK \<longrightarrow> sent session'' = sent session' @
           [out_buffer session' @ [U8 SSH2_MSG_USERAUTH_FAILURE,
               SSH_string (butlast (methods_c bits ?m)), U8 (if partial' \<noteq> 0 then 1 else 0)]])"
    if "ssh_message_auth_reply_default bits io' session' partial' = Inr (rc', session'')"
    for io' partial' rc' session''
    using that auth_reply_default_sent [where session = session' and bits = bits and io = io' and partial = partial' and rc = rc' and session' = session''] m assms(3) ne
    by simp
  then show ?thesis using r m by blast
qed


lemma auth_reply_first_example:
  "ssh_message_auth_reply_default example_bits example_io example_session 0 =
     Inr (SSH_OK, example_session\<lparr>auth_methods := 6,
            sent := [[U8 51, SSH_string ''publickey,password'', U8 0]]\<rparr>)"
  by (simp add: ssh_message_auth_reply_default_def example_session_def example_io_def
       example_bits_def methods_c_def buffer_add_u8_def buffer_add_ssh_string_def
       ssh_string_from_char_def packet_send_def buffer_reinit_def
       SSH2_MSG_USERAUTH_FAILURE_def SSH_OK_def)

lemma auth_reply_second_example:
 "ssh_message_auth_reply_default example_bits example_io
     (example_session\<lparr>auth_methods := 6,
            sent := [[U8 51, SSH_string ''publickey,password'', U8 0]]\<rparr>) 1 =
     Inr (SSH_OK, example_session\<lparr>auth_methods := 6,
            sent := [[U8 51, SSH_string ''publickey,password'', U8 0],
                     [U8 51, SSH_string ''publickey,password'', U8 1]]\<rparr>)"
  by (simp add: ssh_message_auth_reply_default_def example_session_def example_io_def
       example_bits_def methods_c_def buffer_add_u8_def buffer_add_ssh_string_def
       ssh_string_from_char_def packet_send_def buffer_reinit_def
       SSH2_MSG_USERAUTH_FAILURE_def SSH_OK_def)

theorem auth_reply_default_mask_persists_witness:
  "auth_methods example_session = 0 \<and> buffer_ok example_io 0 \<and>
   SSH_AUTH_METHOD_PUBLICKEY example_bits OR SSH_AUTH_METHOD_PASSWORD example_bits = 6 \<and>
   (\<exists>rc session'.
      ssh_message_auth_reply_default example_bits example_io example_session 0 =
        Inr (rc, session') \<and>
      auth_methods session' = 6 \<and>
      sent session' = [[U8 51, SSH_string ''publickey,password'', U8 0]] \<and>
      (\<exists>rc' session''.
         ssh_message_auth_reply_default example_bits example_io session' 1 =
           Inr (rc', session'') \<and>
         auth_methods session'' = 6 \<and>
         sent session'' = [[U8 51, SSH_string ''publickey,password'', U8 0],
                            [U8 51, SSH_string ''publickey,password'', U8 1]]))"
proof -
  have h1: "auth_methods example_session = 0"
    by (simp add: example_session_def)
  have h2: "buffer_ok example_io 0"
    by (simp add: example_io_def)
  have h3: "SSH_AUTH_METHOD_PUBLICKEY example_bits OR SSH_AUTH_METHOD_PASSWORD example_bits = 6"
    by (simp add: example_bits_def)
  then have h3': "SSH_AUTH_METHOD_PUBLICKEY example_bits OR SSH_AUTH_METHOD_PASSWORD example_bits
                   \<noteq> 0"
    by simp
  obtain rc session' where
    r: "ssh_message_auth_reply_default example_bits example_io example_session 0 =
          Inr (rc, session')"
    and m: "auth_methods session' =
          SSH_AUTH_METHOD_PUBLICKEY example_bits OR SSH_AUTH_METHOD_PASSWORD example_bits"
    using auth_reply_default_mask_persists [OF h1 h2 h3', of 0] by blast
  have s: "session' = example_session\<lparr>auth_methods := 6,
            sent := [[U8 51, SSH_string ''publickey,password'', U8 0]]\<rparr>"
    using r by (simp add: auth_reply_first_example)
  show ?thesis
    using h1 h2 h3 r m s auth_reply_second_example
    by simp
qed

end
